theory Spec2Isabelle
  imports Complex_Main "HOL-Library.Multiset" "HOL-Library.Char_ord" "HOL-Library.List_Lexorder"
begin

section \<open>The dataset\<close>

text \<open>
  The two classes of \<^verbatim>\<open>visualization.py\<close> wrap a pandas \<^verbatim>\<open>DataFrame\<close> and call pandas,
  seaborn, matplotlib and scikit-learn. The frame is modelled column by column: a column
  has a dtype and one cell per row. A cell is a number (an integer, a float or a boolean,
  which Python compares and hashes by value), a string, or missing (\<^verbatim>\<open>NaN\<close>/\<^verbatim>\<open>None\<close>).
  Finite floats are read as the reals they denote; \<^verbatim>\<open>float64\<close> results that may be
  \<^verbatim>\<open>NaN\<close> are \<open>real option\<close> with \<open>None\<close> for \<^verbatim>\<open>NaN\<close>.
\<close>

datatype dtype = Int64 | Float64 | Int32 | Float32 | Bool | Object

datatype cell = Num real | Str string | Missing

datatype column = Column (col_dtype: dtype) (col_values: "cell list")

record dataframe =
  nrows :: nat
  cols :: "(string \<times> column) list"

type_synonym float64 = "real option"

text \<open>The column labels, \<^verbatim>\<open>df.columns\<close>.\<close>

definition columns :: "dataframe \<Rightarrow> string list" where
  "columns df = map fst (cols df)"

text \<open>
  A frame is rectangular, its labels are unique, and the cells of a column fit its dtype:
  a numeric or boolean column holds numbers (a float column also missing values), an
  object column holds anything.
\<close>

fun cell_fits :: "dtype \<Rightarrow> cell \<Rightarrow> bool" where
  "cell_fits Object _ = True"
| "cell_fits Float64 (Num _) = True"
| "cell_fits Float64 Missing = True"
| "cell_fits Float32 (Num _) = True"
| "cell_fits Float32 Missing = True"
| "cell_fits Int64 (Num _) = True"
| "cell_fits Int32 (Num _) = True"
| "cell_fits Bool (Num _) = True"
| "cell_fits _ _ = False"

definition wf_column :: "nat \<Rightarrow> column \<Rightarrow> bool" where
  "wf_column n c = (length (col_values c) = n \<and> list_all (cell_fits (col_dtype c)) (col_values c))"

definition wf_frame :: "dataframe \<Rightarrow> bool" where
  "wf_frame df = (distinct (columns df) \<and> list_all (wf_column (nrows df)) (map snd (cols df)))"

section \<open>Errors and calls\<close>

text \<open>
  The source has no \<^verbatim>\<open>try\<close>: a library exception ends the method and reaches the caller.
  The exceptions are values; a method returns the calls it issued to the plotting and
  model libraries, the exception that ended it (if any), and the component after the call.
\<close>

datatype error = KeyError string | ValueError | TypeError | IndexError

text \<open>What \<^verbatim>\<open>df[key]\<close> gives: a Series for a unique label, a sub-frame for a repeated one.\<close>

datatype selection = Series column | Frame "(string \<times> column) list"

text \<open>The table of \<^verbatim>\<open>groupby([a, b]).size().unstack()\<close>: row labels, column labels, counts
  (\<open>None\<close> is the \<^verbatim>\<open>NaN\<close> of a pair that never occurs).\<close>

record count_table =
  ct_index :: "cell list"
  ct_columns :: "cell list"
  ct_values :: "nat option list list"

text \<open>The matrix of \<^verbatim>\<open>df.corr()\<close>: its labels (rows and columns alike) and its entries by row.\<close>

record corr_matrix =
  cm_labels :: "string list"
  cm_entries :: "float64 list list"

datatype call =
    Figure nat nat
  | Histplot selection bool
  | Countplot dataframe string
  | Title string
  | Xticks_rotation nat
  | Show
  | Plot_bar count_table nat nat
  | Heatmap corr_matrix bool string int
  | Barplot "(string \<times> float64) list"
  | Scatterplot dataframe string string
  | RandomForestRegressor_fit nat dataframe selection
  | Barh "string list" "float64 list"
  | Xlabel string

type_synonym 's outcome = "call list \<times> error option \<times> 's"

section \<open>The pandas operations the source calls\<close>

text \<open>\<^verbatim>\<open>df[key]\<close>: \<^verbatim>\<open>KeyError\<close> when no column has the label.\<close>

definition getitem :: "dataframe \<Rightarrow> string \<Rightarrow> error + selection" where
  "getitem df key =
     (case filter (\<lambda>(n, c). n = key) (cols df) of
        [] \<Rightarrow> Inl (KeyError key)
      | [(n, c)] \<Rightarrow> Inr (Series c)
      | many \<Rightarrow> Inr (Frame many))"

text \<open>\<^verbatim>\<open>df.select_dtypes(include=[...])\<close>: the columns whose dtype is one of the listed
  ones, in the frame's order. The names \<^verbatim>\<open>'int64'\<close>, \<^verbatim>\<open>'float64'\<close> and \<^verbatim>\<open>'object'\<close> each
  denote that one dtype.\<close>

definition select_dtypes :: "dtype list \<Rightarrow> dataframe \<Rightarrow> dataframe" where
  "select_dtypes include df =
     df\<lparr>cols := filter (\<lambda>(n, c). col_dtype c \<in> set include) (cols df)\<rparr>"

text \<open>
  Sorting by a comparison, by insertion from the right: equal keys keep their order.
  It stands for pandas' and numpy's sorts, whose order among equal keys is not part of
  their contract; no statement about all inputs below depends on that order.
\<close>

fun insort_by :: "('a \<Rightarrow> 'a \<Rightarrow> bool) \<Rightarrow> 'a \<Rightarrow> 'a list \<Rightarrow> 'a list" where
  "insort_by le x [] = [x]"
| "insort_by le x (y # ys) = (if le x y then x # y # ys else y # insort_by le x ys)"

definition sort_by :: "('a \<Rightarrow> 'a \<Rightarrow> bool) \<Rightarrow> 'a list \<Rightarrow> 'a list" where
  "sort_by le xs = foldr (insort_by le) xs []"

text \<open>The order of group keys: numbers by value, then strings by code point, then missing.\<close>

fun cell_le :: "cell \<Rightarrow> cell \<Rightarrow> bool" where
  "cell_le (Num a) (Num b) = (a \<le> b)"
| "cell_le (Num a) (Str t) = True"
| "cell_le (Num a) Missing = True"
| "cell_le (Str s) (Num b) = False"
| "cell_le (Str s) (Str t) = (s \<le> t)"
| "cell_le (Str s) Missing = True"
| "cell_le Missing (Num b) = False"
| "cell_le Missing (Str t) = False"
| "cell_le Missing Missing = True"

fun pair_le :: "cell \<times> cell \<Rightarrow> cell \<times> cell \<Rightarrow> bool" where
  "pair_le (a, b) (c, d) = (if cell_le a c then (if cell_le c a then cell_le b d else True) else False)"

text \<open>The order of \<^verbatim>\<open>float64\<close> values in a sort: \<^verbatim>\<open>NaN\<close> goes last either way.\<close>

fun asc_le :: "float64 \<Rightarrow> float64 \<Rightarrow> bool" where
  "asc_le (Some x) (Some y) = (x \<le> y)"
| "asc_le (Some x) None = True"
| "asc_le None (Some y) = False"
| "asc_le None None = True"

fun desc_le :: "float64 \<Rightarrow> float64 \<Rightarrow> bool" where
  "desc_le (Some x) (Some y) = (y \<le> x)"
| "desc_le (Some x) None = True"
| "desc_le None (Some y) = False"
| "desc_le None None = True"

text \<open>
  A key of \<^verbatim>\<open>df.groupby([...])\<close>: \<^verbatim>\<open>KeyError\<close> for a label the frame does not have,
  \<^verbatim>\<open>ValueError\<close> (the grouper is not one-dimensional) for a repeated one.
\<close>

definition group_key :: "dataframe \<Rightarrow> string \<Rightarrow> error + cell list" where
  "group_key df key =
     (case getitem df key of
        Inl e \<Rightarrow> Inl e
      | Inr (Series c) \<Rightarrow> Inr (col_values c)
      | Inr (Frame _) \<Rightarrow> Inl ValueError)"

text \<open>
  \<^verbatim>\<open>df.groupby([a, b]).size()\<close>: the rows are grouped by the pair of their two keys; a
  row in which a key is missing belongs to no group (\<^verbatim>\<open>dropna=True\<close> is the default); the
  result lists each pair that occurs, in sorted order, with its number of rows.
\<close>

definition group_rows :: "cell list \<Rightarrow> cell list \<Rightarrow> (cell \<times> cell) list" where
  "group_rows k1 k2 = filter (\<lambda>(a, b). a \<noteq> Missing \<and> b \<noteq> Missing) (zip k1 k2)"

definition groupby_size :: "dataframe \<Rightarrow> string \<Rightarrow> string \<Rightarrow> error + ((cell \<times> cell) \<times> nat) list" where
  "groupby_size df a b =
     (case group_key df a of
        Inl e \<Rightarrow> Inl e
      | Inr k1 \<Rightarrow>
          (case group_key df b of
             Inl e \<Rightarrow> Inl e
           | Inr k2 \<Rightarrow>
               (let rows = group_rows k1 k2
                in Inr (map (\<lambda>k. (k, count_list rows k)) (sort_by pair_le (remdups rows))))))"

text \<open>
  \<^verbatim>\<open>.unstack()\<close>: the second key becomes the columns. Rows are the first keys that
  occur, columns the second keys that occur, both sorted; a pair that does not occur
  gets \<^verbatim>\<open>NaN\<close>.
\<close>

definition unstack :: "((cell \<times> cell) \<times> nat) list \<Rightarrow> count_table" where
  "unstack sizes =
     (let row_keys = sort_by cell_le (remdups (map (fst \<circ> fst) sizes));
          col_keys = sort_by cell_le (remdups (map (snd \<circ> fst) sizes))
      in \<lparr>ct_index = row_keys, ct_columns = col_keys,
          ct_values = map (\<lambda>r. map (\<lambda>c. map_of sizes (r, c)) col_keys) row_keys\<rparr>)"

text \<open>The sum of the counts of a table, \<^verbatim>\<open>NaN\<close> counting for nothing.\<close>

definition table_total :: "count_table \<Rightarrow> nat" where
  "table_total t = sum_list (map (\<lambda>row. sum_list (map (\<lambda>v. case v of None \<Rightarrow> 0 | Some n \<Rightarrow> n) row)) (ct_values t))"

text \<open>\<^verbatim>\<open>DataFrame.plot(kind='bar', figsize=(w, h))\<close>: \<^verbatim>\<open>TypeError\<close> (no numeric data to plot)
  on a table without data.\<close>

definition plot_bar :: "count_table \<Rightarrow> nat \<Rightarrow> nat \<Rightarrow> error + call" where
  "plot_bar t w h = (if ct_index t = [] \<or> ct_columns t = [] then Inl TypeError else Inr (Plot_bar t w h))"

text \<open>\<^verbatim>\<open>df.drop(label, axis=1)\<close>: a new frame without the columns of that label;
  \<^verbatim>\<open>KeyError\<close> when there is none. The frame it is called on is not changed.\<close>

definition drop_column :: "dataframe \<Rightarrow> string \<Rightarrow> error + dataframe" where
  "drop_column df label =
     (if label \<in> set (columns df)
      then Inr (df\<lparr>cols := filter (\<lambda>(n, c). n \<noteq> label) (cols df)\<rparr>)
      else Inl (KeyError label))"

section \<open>What is left to the libraries\<close>

text \<open>
  Three things the source relies on are not fixed by it and are parameters of the model:
  \<^item> \<open>numeric_only_default\<close>: whether \<^verbatim>\<open>df.corr()\<close> silently leaves out the columns of
    a non-numeric dtype (pandas before 2.0) or converts every column to float and raises
    when it cannot (pandas from 2.0 on);
  \<^item> \<open>py_float\<close>: Python's \<^verbatim>\<open>float(s)\<close> on a string, \<open>None\<close> when it raises;
  \<^item> \<open>forest_importances\<close>: \<^verbatim>\<open>RandomForestRegressor(n_estimators=n).fit(X, y)\<close> followed
    by \<^verbatim>\<open>feature_importances_\<close>, for the entropy the unseeded estimator draws.
\<close>

record library =
  numeric_only_default :: bool
  py_float :: "string \<Rightarrow> float64 option"
  forest_importances :: "nat \<Rightarrow> nat \<Rightarrow> dataframe \<Rightarrow> selection \<Rightarrow> error + float64 list"

text \<open>The dtypes pandas counts as numeric (booleans included).\<close>

fun is_numeric_dtype :: "dtype \<Rightarrow> bool" where
  "is_numeric_dtype Object = False"
| "is_numeric_dtype _ = True"

text \<open>A cell as a float, as \<^verbatim>\<open>to_numpy(dtype=float, na_value=nan)\<close> converts it.\<close>

fun to_float :: "library \<Rightarrow> cell \<Rightarrow> error + float64" where
  "to_float L (Num r) = Inr (Some r)"
| "to_float L Missing = Inr None"
| "to_float L (Str s) = (case py_float L s of None \<Rightarrow> Inl ValueError | Some v \<Rightarrow> Inr v)"

text \<open>All results, or the first error.\<close>

fun sequence :: "(error + 'a) list \<Rightarrow> error + 'a list" where
  "sequence [] = Inr []"
| "sequence (Inl e # rs) = Inl e"
| "sequence (Inr x # rs) = (case sequence rs of Inl e \<Rightarrow> Inl e | Inr xs \<Rightarrow> Inr (x # xs))"

text \<open>
  The coefficient \<^verbatim>\<open>df.corr()\<close> computes for two columns (method \<^verbatim>\<open>pearson\<close>,
  \<^verbatim>\<open>min_periods=1\<close>): over the rows in which both values are present, the sum of the
  products of the deviations from the two means, divided by the square root of the product
  of the two sums of squared deviations, and clipped to the interval from -1 to 1. It is
  \<^verbatim>\<open>NaN\<close> when no row has both values and when the divisor is zero. pandas accumulates
  the means and sums row by row in floating point; here they are the exact sums over the
  reals.
\<close>

definition present_pairs :: "float64 list \<Rightarrow> float64 list \<Rightarrow> (real \<times> real) list" where
  "present_pairs x y =
     map (\<lambda>(a, b). (the a, the b)) (filter (\<lambda>(a, b). a \<noteq> None \<and> b \<noteq> None) (zip x y))"

definition mean_of :: "real list \<Rightarrow> real" where
  "mean_of xs = sum_list xs / real (length xs)"

definition clip :: "real \<Rightarrow> real" where
  "clip r = (if 1 < r then 1 else if r < - 1 then - 1 else r)"

definition nancorr :: "float64 list \<Rightarrow> float64 list \<Rightarrow> float64" where
  "nancorr x y =
     (let ps = present_pairs x y;
          meanx = mean_of (map fst ps);
          meany = mean_of (map snd ps);
          ssqdm_x = sum_list (map (\<lambda>(a, b). (a - meanx)\<^sup>2) ps);
          ssqdm_y = sum_list (map (\<lambda>(a, b). (b - meany)\<^sup>2) ps);
          covxy = sum_list (map (\<lambda>(a, b). (a - meanx) * (b - meany)) ps);
          divisor = sqrt (ssqdm_x * ssqdm_y)
      in if length ps < 1 then None
         else if divisor = 0 then None
         else Some (clip (covxy / divisor)))"



text \<open>The columns \<^verbatim>\<open>df.corr()\<close> works on.\<close>

definition corr_columns :: "library \<Rightarrow> dataframe \<Rightarrow> (string \<times> column) list" where
  "corr_columns L df =
     (if numeric_only_default L
      then filter (\<lambda>(n, c). is_numeric_dtype (col_dtype c)) (cols df)
      else cols df)"

text \<open>
  \<^verbatim>\<open>df.corr()\<close>: the columns are converted to float arrays; the entry of row \<open>i\<close> and
  column \<open>j\<close> is the coefficient of the arrays \<open>i\<close> and \<open>j\<close>.
\<close>

definition corr :: "library \<Rightarrow> dataframe \<Rightarrow> error + corr_matrix" where
  "corr L df =
     (let d = corr_columns L df
      in case sequence (map (\<lambda>(n, c). sequence (map (to_float L) (col_values c))) d) of
           Inl e \<Rightarrow> Inl e
         | Inr arrs \<Rightarrow>
             Inr \<lparr>cm_labels = map fst d,
                  cm_entries =
                    map (\<lambda>i. map (\<lambda>j. nancorr (arrs ! i) (arrs ! j)) [0..<length arrs])
                        [0..<length arrs]\<rparr>)"

text \<open>
  \<^verbatim>\<open>m[target].sort_values(ascending=False)\<close> on the correlation matrix: the column of
  that label as a labelled series, sorted by value, largest first. \<^verbatim>\<open>KeyError\<close> for a
  label the matrix does not have; a repeated label selects a frame, and
  \<^verbatim>\<open>sort_values\<close> without \<^verbatim>\<open>by\<close> raises \<^verbatim>\<open>TypeError\<close> on it.
\<close>

definition corr_getitem :: "corr_matrix \<Rightarrow> string \<Rightarrow> error + (string \<times> float64) list" where
  "corr_getitem m target =
     (case filter (\<lambda>j. cm_labels m ! j = target) [0..<length (cm_labels m)] of
        [] \<Rightarrow> Inl (KeyError target)
      | [j] \<Rightarrow> Inr (zip (cm_labels m) (map (\<lambda>row. row ! j) (cm_entries m)))
      | many \<Rightarrow> Inl TypeError)"

definition sort_values_descending :: "(string \<times> float64) list \<Rightarrow> (string \<times> float64) list" where
  "sort_values_descending s = sort_by (\<lambda>p q. desc_le (snd p) (snd q)) s"

text \<open>\<^verbatim>\<open>a.argsort()\<close>: the positions of the array, by ascending value.\<close>

definition argsort :: "float64 list \<Rightarrow> nat list" where
  "argsort a = sort_by (\<lambda>i j. asc_le (a ! i) (a ! j)) [0..<length a]"

text \<open>\<^verbatim>\<open>index[positions]\<close>: \<^verbatim>\<open>IndexError\<close> for a position out of bounds.\<close>

definition take_positions :: "'a list \<Rightarrow> nat list \<Rightarrow> error + 'a list" where
  "take_positions xs ps =
     (if list_all (\<lambda>p. p < length xs) ps then Inr (map (\<lambda>p. xs ! p) ps) else Inl IndexError)"

section \<open>The seaborn calls that can fail\<close>

text \<open>\<^verbatim>\<open>sns.heatmap\<close> raises \<^verbatim>\<open>ValueError\<close> on a matrix without entries (it takes the minimum
  of the data).\<close>

definition sns_heatmap :: "corr_matrix \<Rightarrow> bool \<Rightarrow> string \<Rightarrow> int \<Rightarrow> error + call" where
  "sns_heatmap m annot cmap center =
     (if cm_labels m = [] then Inl ValueError else Inr (Heatmap m annot cmap center))"

text \<open>\<^verbatim>\<open>sns.scatterplot(data=df, x=.., y=..)\<close> raises \<^verbatim>\<open>ValueError\<close> for a name that is not
  a column of \<^verbatim>\<open>df\<close>.\<close>

definition sns_scatterplot :: "dataframe \<Rightarrow> string \<Rightarrow> string \<Rightarrow> error + call" where
  "sns_scatterplot df x y =
     (if x \<in> set (columns df) \<and> y \<in> set (columns df) then Inr (Scatterplot df x y) else Inl ValueError)"

section \<open>PreprocessVisualizer\<close>

record PreprocessVisualizer =
  data :: dataframe

text \<open>\<^verbatim>\<open>__init__\<close> stores the frame it is given.\<close>

definition PreprocessVisualizer_init :: "dataframe \<Rightarrow> PreprocessVisualizer" where
  "PreprocessVisualizer_init d = \<lparr>data = d\<rparr>"

text \<open>
  \<^verbatim>\<open>numeric_cols = self.data.select_dtypes(include=['int64', 'float64']).columns\<close>, then for
  each \<^verbatim>\<open>col\<close>: \<^verbatim>\<open>plt.figure(figsize=(12, 6))\<close>, \<^verbatim>\<open>sns.histplot(self.data[col], kde=True)\<close>,
  \<^verbatim>\<open>plt.title(f"Distribution of {col}")\<close>, \<^verbatim>\<open>plt.show()\<close>. The loop is a recursion over the
  labels that remain.
\<close>

fun numeric_loop :: "dataframe \<Rightarrow> string list \<Rightarrow> call list \<times> error option" where
  "numeric_loop d [] = ([], None)"
| "numeric_loop d (col # rest) =
     (case getitem d col of
        Inl e \<Rightarrow> ([Figure 12 6], Some e)
      | Inr s \<Rightarrow>
          (let (cs, r) = numeric_loop d rest
           in ([Figure 12 6, Histplot s True, Title (''Distribution of '' @ col), Show] @ cs, r)))"

definition plot_numeric_distribution :: "PreprocessVisualizer \<Rightarrow> PreprocessVisualizer outcome" where
  "plot_numeric_distribution self =
     (let numeric_cols = columns (select_dtypes [Int64, Float64] (data self));
          (cs, r) = numeric_loop (data self) numeric_cols
      in (cs, r, self))"

text \<open>
  \<^verbatim>\<open>cat_cols = self.data.select_dtypes(include=['object']).columns\<close>, then for each
  \<^verbatim>\<open>col\<close>: a 12 by 6 figure, \<^verbatim>\<open>sns.countplot(data=self.data, x=col)\<close>, the title,
  \<^verbatim>\<open>plt.xticks(rotation=45)\<close>, \<^verbatim>\<open>plt.show()\<close>.
\<close>

fun categorical_loop :: "dataframe \<Rightarrow> string list \<Rightarrow> call list \<times> error option" where
  "categorical_loop d [] = ([], None)"
| "categorical_loop d (col # rest) =
     (let (cs, r) = categorical_loop d rest
      in ([Figure 12 6, Countplot d col, Title (''Distribution of '' @ col), Xticks_rotation 45, Show]
            @ cs, r))"

definition plot_categorical_distribution :: "PreprocessVisualizer \<Rightarrow> PreprocessVisualizer outcome" where
  "plot_categorical_distribution self =
     (let cat_cols = columns (select_dtypes [Object] (data self));
          (cs, r) = categorical_loop (data self) cat_cols
      in (cs, r, self))"

text \<open>
  The local \<^verbatim>\<open>grouped = self.data.groupby([group_first, group_second]).size().unstack()\<close>
  of \<^verbatim>\<open>plot_channel_category_counts\<close>; then \<^verbatim>\<open>grouped.plot(kind='bar', figsize=(15, 7))\<close>,
  the title, the tick rotation and \<^verbatim>\<open>plt.show()\<close>.
\<close>

definition grouped :: "dataframe \<Rightarrow> string \<Rightarrow> string \<Rightarrow> error + count_table" where
  "grouped df group_first group_second =
     (case groupby_size df group_first group_second of
        Inl e \<Rightarrow> Inl e
      | Inr sizes \<Rightarrow> Inr (unstack sizes))"

definition plot_channel_category_counts ::
    "PreprocessVisualizer \<Rightarrow> string \<Rightarrow> string \<Rightarrow> PreprocessVisualizer outcome" where
  "plot_channel_category_counts self group_first group_second =
     (case grouped (data self) group_first group_second of
        Inl e \<Rightarrow> ([], Some e, self)
      | Inr g \<Rightarrow>
          (case plot_bar g 15 7 of
             Inl e \<Rightarrow> ([], Some e, self)
           | Inr c \<Rightarrow>
               ([c, Title (''Distribution of '' @ group_second @ '' by '' @ group_first),
                 Xticks_rotation 45, Show], None, self)))"

text \<open>
  \<^verbatim>\<open>plt.figure(figsize=(12, 12))\<close>, then
  \<^verbatim>\<open>sns.heatmap(self.data.corr(), annot=True, cmap="coolwarm", center=0)\<close>, the title and
  \<^verbatim>\<open>plt.show()\<close>. The figure is open when \<^verbatim>\<open>corr\<close> or \<^verbatim>\<open>heatmap\<close> raises.
\<close>

definition plot_heatmap :: "library \<Rightarrow> PreprocessVisualizer \<Rightarrow> PreprocessVisualizer outcome" where
  "plot_heatmap L self =
     (case corr L (data self) of
        Inl e \<Rightarrow> ([Figure 12 12], Some e, self)
      | Inr m \<Rightarrow>
          (case sns_heatmap m True ''coolwarm'' 0 of
             Inl e \<Rightarrow> ([Figure 12 12], Some e, self)
           | Inr c \<Rightarrow> ([Figure 12 12, c, Title ''Correlation Heatmap'', Show], None, self)))"

section \<open>PostprocessVisualizer\<close>

text \<open>The field \<^verbatim>\<open>self.data\<close> of the second class is \<open>post_data\<close>, and its \<^verbatim>\<open>plot_heatmap\<close> is
  \<open>post_plot_heatmap\<close>: the names of the first class are taken.\<close>

record PostprocessVisualizer =
  post_data :: dataframe

definition PostprocessVisualizer_init :: "dataframe \<Rightarrow> PostprocessVisualizer" where
  "PostprocessVisualizer_init d = \<lparr>post_data = d\<rparr>"

definition post_plot_heatmap :: "library \<Rightarrow> PostprocessVisualizer \<Rightarrow> PostprocessVisualizer outcome" where
  "post_plot_heatmap L self =
     (case corr L (post_data self) of
        Inl e \<Rightarrow> ([Figure 12 12], Some e, self)
      | Inr m \<Rightarrow>
          (case sns_heatmap m True ''coolwarm'' 0 of
             Inl e \<Rightarrow> ([Figure 12 12], Some e, self)
           | Inr c \<Rightarrow> ([Figure 12 12, c, Title ''Correlation Heatmap'', Show], None, self)))"

text \<open>
  The local \<^verbatim>\<open>correlations = self.data.corr()[target].sort_values(ascending=False)\<close> of
  \<^verbatim>\<open>plot_correlation_analysis\<close>; then a 15 by 6 figure, \<^verbatim>\<open>sns.barplot(correlations)\<close>, the
  title, the tick rotation and \<^verbatim>\<open>plt.show()\<close>.
\<close>

definition correlations :: "library \<Rightarrow> dataframe \<Rightarrow> string \<Rightarrow> error + (string \<times> float64) list" where
  "correlations L df target =
     (case corr L df of
        Inl e \<Rightarrow> Inl e
      | Inr m \<Rightarrow>
          (case corr_getitem m target of
             Inl e \<Rightarrow> Inl e
           | Inr s \<Rightarrow> Inr (sort_values_descending s)))"

definition plot_correlation_analysis ::
    "library \<Rightarrow> PostprocessVisualizer \<Rightarrow> string \<Rightarrow> PostprocessVisualizer outcome" where
  "plot_correlation_analysis L self target =
     (case correlations L (post_data self) target of
        Inl e \<Rightarrow> ([], Some e, self)
      | Inr s \<Rightarrow>
          ([Figure 15 6, Barplot s, Title (''Correlation with '' @ target), Xticks_rotation 45, Show],
           None, self))"

text \<open>
  \<^verbatim>\<open>features = [col for col in self.data.columns if col != target]\<close>, then for each
  \<^verbatim>\<open>feature\<close>: \<^verbatim>\<open>plt.figure(figsize=(10, 6))\<close>,
  \<^verbatim>\<open>sns.scatterplot(data=self.data, x=feature, y=target)\<close>,
  \<^verbatim>\<open>plt.title(f"{feature} vs. {target}")\<close>, \<^verbatim>\<open>plt.show()\<close>.
\<close>

definition features :: "dataframe \<Rightarrow> string \<Rightarrow> string list" where
  "features df target = filter (\<lambda>col. col \<noteq> target) (columns df)"

fun scatter_loop :: "dataframe \<Rightarrow> string \<Rightarrow> string list \<Rightarrow> call list \<times> error option" where
  "scatter_loop d target [] = ([], None)"
| "scatter_loop d target (feature # rest) =
     (case sns_scatterplot d feature target of
        Inl e \<Rightarrow> ([Figure 10 6], Some e)
      | Inr c \<Rightarrow>
          (let (cs, r) = scatter_loop d target rest
           in ([Figure 10 6, c, Title (feature @ '' vs. '' @ target), Show] @ cs, r)))"

definition plot_scatterplots :: "PostprocessVisualizer \<Rightarrow> string \<Rightarrow> PostprocessVisualizer outcome" where
  "plot_scatterplots self target =
     (let (cs, r) = scatter_loop (post_data self) target (features (post_data self) target)
      in (cs, r, self))"

text \<open>
  \<^verbatim>\<open>X = self.data.drop(target, axis=1)\<close>, \<^verbatim>\<open>y = self.data[target]\<close>,
  \<^verbatim>\<open>model = RandomForestRegressor(n_estimators=100)\<close>, \<^verbatim>\<open>model.fit(X, y)\<close>,
  \<^verbatim>\<open>importances = model.feature_importances_\<close>, \<^verbatim>\<open>sorted_idx = importances.argsort()\<close>, a
  15 by 12 figure, \<^verbatim>\<open>plt.barh(X.columns[sorted_idx], importances[sorted_idx])\<close>, the x label
  and \<^verbatim>\<open>plt.show()\<close>. \<open>seed\<close> is the entropy the estimator draws, since it is created
  without \<^verbatim>\<open>random_state\<close>.
\<close>

definition plot_feature_importance ::
    "library \<Rightarrow> nat \<Rightarrow> PostprocessVisualizer \<Rightarrow> string \<Rightarrow> PostprocessVisualizer outcome" where
  "plot_feature_importance L seed self target =
     (case drop_column (post_data self) target of
        Inl e \<Rightarrow> ([], Some e, self)
      | Inr X \<Rightarrow>
          (case getitem (post_data self) target of
             Inl e \<Rightarrow> ([], Some e, self)
           | Inr y \<Rightarrow>
               (case forest_importances L 100 seed X y of
                  Inl e \<Rightarrow> ([RandomForestRegressor_fit 100 X y], Some e, self)
                | Inr importances \<Rightarrow>
                    (let sorted_idx = argsort importances
                     in case take_positions (columns X) sorted_idx of
                          Inl e \<Rightarrow> ([RandomForestRegressor_fit 100 X y, Figure 15 12], Some e, self)
                        | Inr labels \<Rightarrow>
                            ([RandomForestRegressor_fit 100 X y, Figure 15 12,
                              Barh labels (map (\<lambda>i. importances ! i) sorted_idx),
                              Xlabel ''Feature Importance'', Show], None, self)))))"

section \<open>Terms of the specification, and example inputs\<close>

text \<open>The specification's numeric column, one "holding integer or floating-point values",
  read on the dtypes.\<close>

definition integer_or_float_typed :: "dtype \<Rightarrow> bool" where
  "integer_or_float_typed t = (t = Int64 \<or> t = Int32 \<or> t = Float64 \<or> t = Float32)"

text \<open>A frame with an \<^verbatim>\<open>int64\<close> column A, a \<^verbatim>\<open>float64\<close> column B and an \<^verbatim>\<open>object\<close> column C, and a frame
  with one \<^verbatim>\<open>int32\<close> column.\<close>

definition abc_frame :: dataframe where
  "abc_frame = \<lparr>nrows = 2, cols =
     [(''A'', Column Int64 [Num 3, Num 5]),
      (''B'', Column Float64 [Num (1/2), Missing]),
      (''C'', Column Object [Str ''x'', Str ''y''])]\<rparr>"

definition int32_frame :: dataframe where
  "int32_frame = \<lparr>nrows = 2, cols = [(''views'', Column Int32 [Num 3, Num 5])]\<rparr>"


text \<open>A frame without columns; a frame in which a grouping key is missing in one row; a
  frame of three rows for the two-way grouping.\<close>

definition empty_frame :: dataframe where
  "empty_frame = \<lparr>nrows = 0, cols = []\<rparr>"

definition missing_key_frame :: dataframe where
  "missing_key_frame = \<lparr>nrows = 2, cols =
     [(''channel_type'', Column Object [Str ''Music'', Missing]),
      (''category'', Column Object [Str ''Pop'', Str ''News''])]\<rparr>"

definition channel_frame :: dataframe where
  "channel_frame = \<lparr>nrows = 3, cols =
     [(''channel_type'', Column Object [Str ''Music'', Str ''Games'', Str ''Music'']),
      (''category'', Column Object [Str ''Pop'', Str ''Pop'', Str ''Rock''])]\<rparr>"

text \<open>
  A library to instantiate the parameters with: \<^verbatim>\<open>corr\<close> leaves the non-numeric dtypes
  out, no string reads as a float, and the importances decrease along the columns and sum
  to one.
\<close>

definition example_importances :: "nat \<Rightarrow> nat \<Rightarrow> dataframe \<Rightarrow> selection \<Rightarrow> error + float64 list" where
  "example_importances n seed X y =
     (let k = length (cols X)
      in if k = 0 then Inl ValueError
         else Inr (map (\<lambda>i. Some (2 * real (k - i) / real (k * (k + 1)))) [0..<k]))"

definition example_library :: library where
  "example_library = \<lparr>numeric_only_default = True, py_float = (\<lambda>s. None),
     forest_importances = example_importances\<rparr>"

text \<open>A numeric frame of two rows with the target \<^verbatim>\<open>views\<close>, a frame that holds the target
  only, and a frame with a boolean column.\<close>

definition post_frame :: dataframe where
  "post_frame = \<lparr>nrows = 2, cols =
     [(''views'', Column Int64 [Num 1, Num 2]),
      (''likes'', Column Int64 [Num 5, Num 3]),
      (''comments'', Column Float64 [Num 2, Num 2]),
      (''shares'', Column Int64 [Num 0, Num 7])]\<rparr>"

definition target_only_frame :: dataframe where
  "target_only_frame = \<lparr>nrows = 2, cols = [(''views'', Column Int64 [Num 1, Num 2])]\<rparr>"


section \<open>Sorting\<close>

lemma mset_insort_by: "mset (insort_by le x xs) = add_mset x (mset xs)"
  by (induction xs) auto

lemma mset_sort_by: "mset (sort_by le xs) = mset xs"
  unfolding sort_by_def by (induction xs) (auto simp: mset_insort_by)

lemma set_sort_by: "set (sort_by le xs) = set xs"
  by (metis mset_sort_by set_mset_mset)

lemma distinct_sort_by: "distinct (sort_by le xs) = distinct xs"
  by (metis mset_sort_by distinct_count_atmost_1 set_mset_mset)

lemma set_insort_by: "set (insort_by le x xs) = insert x (set xs)"
  by (induction xs) auto

lemma sorted_insort_by:
  assumes total: "\<And>a b. le a b \<or> le b a" and trans: "\<And>a b c. le a b \<Longrightarrow> le b c \<Longrightarrow> le a c"
  shows "sorted_wrt le xs \<Longrightarrow> sorted_wrt le (insort_by le x xs)"
proof (induction xs)
  case Nil
  then show ?case by simp
next
  case (Cons y ys)
  show ?case
  proof (cases "le x y")
    case True
    have "le x z" if "z \<in> set ys" for z
      using that Cons.prems True trans [of x y z] by auto
    with Cons.prems True show ?thesis by auto
  next
    case False
    then have "le y x" using total by blast
    with Cons False show ?thesis by (auto simp: set_insort_by)
  qed
qed

lemma sorted_sort_by:
  assumes total: "\<And>a b. le a b \<or> le b a" and trans: "\<And>a b c. le a b \<Longrightarrow> le b c \<Longrightarrow> le a c"
  shows "sorted_wrt le (sort_by le xs)"
  unfolding sort_by_def
  by (induction xs) (auto intro: sorted_insort_by [OF total trans])

lemma asc_le_total: "asc_le a b \<or> asc_le b a"
  by (cases a; cases b) auto

lemma asc_le_trans: "asc_le a b \<Longrightarrow> asc_le b c \<Longrightarrow> asc_le a c"
  by (cases a; cases b; cases c) auto



section \<open>The correlation coefficient\<close>








lemma nancorr_two_rows:
  "nancorr [Some a, Some b] [Some c, Some d] =
     (if (b - a) * (d - c) = 0 then None
      else if 0 < (b - a) * (d - c) then Some 1 else Some (- 1))"
proof -
  let ?p = "(b - a) * (d - c) / 2"
  have sx: "(a - (a + b) / 2)\<^sup>2 + (b - (a + b) / 2)\<^sup>2 = (b - a)\<^sup>2 / 2"
    by (simp add: power2_eq_square field_simps)
  have sy: "(c - (c + d) / 2)\<^sup>2 + (d - (c + d) / 2)\<^sup>2 = (d - c)\<^sup>2 / 2"
    by (simp add: power2_eq_square field_simps)
  have cv: "(a - (a + b) / 2) * (c - (c + d) / 2) + (b - (a + b) / 2) * (d - (c + d) / 2) = ?p"
    by (simp add: field_simps)
  have dv: "sqrt ((b - a)\<^sup>2 * (d - c)\<^sup>2 / 4) = \<bar>(b - a) * (d - c)\<bar> / 2"
    by (simp add: real_sqrt_divide real_sqrt_mult abs_mult)
  have unfolded: "nancorr [Some a, Some b] [Some c, Some d] =
      (if b = a \<or> d = c then None
       else Some (clip ((b - a) * (d - c) / \<bar>(b - a) * (d - c)\<bar>)))"
    by (simp add: nancorr_def present_pairs_def mean_of_def Let_def sx sy cv dv)
  show ?thesis
  proof (cases "(b - a) * (d - c) = 0")
    case True
    with unfolded show ?thesis by auto
  next
    case False
    then have ne: "\<not> (b = a \<or> d = c)" by auto
    have r: "nancorr [Some a, Some b] [Some c, Some d] =
        Some (clip ((b - a) * (d - c) / \<bar>(b - a) * (d - c)\<bar>))"
      by (simp only: unfolded ne if_False)
    show ?thesis
    proof (cases "0 < (b - a) * (d - c)")
      case True
      then have "\<bar>(b - a) * (d - c)\<bar> = (b - a) * (d - c)" by (rule abs_of_pos)
      with ne have q: "(b - a) * (d - c) / \<bar>(b - a) * (d - c)\<bar> = 1" by simp
      show ?thesis unfolding r q using True ne by (simp add: clip_def)
    next
      case neg: False
      with False have lt: "(b - a) * (d - c) < 0" by (metis less_linear)
      then have "\<bar>(b - a) * (d - c)\<bar> = - ((b - a) * (d - c))" by (rule abs_of_neg)
      with ne have q: "(b - a) * (d - c) / \<bar>(b - a) * (d - c)\<bar> = - 1" by simp
      show ?thesis unfolding r q using lt ne by (simp add: clip_def)
    qed
  qed
qed

section \<open>Facts about the pandas operations\<close>

lemma filter_label_unique:
  "distinct (map fst xs) \<Longrightarrow> (n, c) \<in> set xs \<Longrightarrow> filter (\<lambda>(n', c'). n' = n) xs = [(n, c)]"
proof (induction xs)
  case Nil
  then show ?case by simp
next
  case (Cons x xs)
  obtain m b where x: "x = (m, b)" by (cases x)
  show ?case
  proof (cases "m = n")
    case True
    with Cons.prems x have "(n, c) = (m, b)" by (auto simp: image_iff)
    moreover from Cons.prems x True have "filter (\<lambda>(n', c'). n' = n) xs = []"
      by (auto simp: filter_empty_conv image_iff)
    ultimately show ?thesis using x True by simp
  next
    case False
    with Cons x show ?thesis by auto
  qed
qed

lemma getitem_unique:
  "distinct (columns df) \<Longrightarrow> (n, c) \<in> set (cols df) \<Longrightarrow> getitem df n = Inr (Series c)"
  by (simp add: getitem_def columns_def filter_label_unique)

lemma getitem_absent: "key \<notin> set (columns df) \<Longrightarrow> getitem df key = Inl (KeyError key)"
proof -
  assume "key \<notin> set (columns df)"
  then have "filter (\<lambda>(n, c). n = key) (cols df) = []"
    by (auto simp: columns_def filter_empty_conv image_iff)
  then show ?thesis by (simp add: getitem_def)
qed

lemma group_key_absent: "key \<notin> set (columns df) \<Longrightarrow> group_key df key = Inl (KeyError key)"
  by (simp add: group_key_def getitem_absent)

lemma group_key_present:
  "distinct (columns df) \<Longrightarrow> (key, c) \<in> set (cols df) \<Longrightarrow> group_key df key = Inr (col_values c)"
  by (simp add: group_key_def getitem_unique)

lemma group_key_cases:
  "distinct (columns df) \<Longrightarrow>
   key \<in> set (columns df) \<Longrightarrow> \<exists>c. (key, c) \<in> set (cols df) \<and> group_key df key = Inr (col_values c)"
  by (auto simp: columns_def group_key_def getitem_unique)

lemma wf_frame_column_length:
  "wf_frame d \<Longrightarrow> (n, c) \<in> set (cols d) \<Longrightarrow> length (col_values c) = nrows d"
  by (force simp: wf_frame_def wf_column_def list_all_iff)

lemma group_rows_no_missing:
  "Missing \<notin> set k1 \<Longrightarrow> Missing \<notin> set k2 \<Longrightarrow> group_rows k1 k2 = zip k1 k2"
  unfolding group_rows_def
  by (rule filter_True) (auto dest: set_zip_leftD set_zip_rightD)

lemma drop_column_cols:
  "drop_column d target = Inr X \<Longrightarrow>
   cols X = filter (\<lambda>(n, c). n \<noteq> target) (cols d) \<and> nrows X = nrows d \<and> target \<in> set (columns d)"
  by (auto simp: drop_column_def split: if_splits)






lemma corr_labels: "corr L df = Inr m \<Longrightarrow> cm_labels m = map fst (corr_columns L df)"
  by (auto simp: corr_def Let_def split: sum.splits)

lemma corr_columns_subset: "set (corr_columns L df) \<subseteq> set (cols df)"
  by (auto simp: corr_columns_def)




lemma corr_getitem_absent: "target \<notin> set (cm_labels m) \<Longrightarrow> corr_getitem m target = Inl (KeyError target)"
proof -
  assume "target \<notin> set (cm_labels m)"
  then have "filter (\<lambda>j. cm_labels m ! j = target) [0..<length (cm_labels m)] = []"
    by (auto simp: filter_empty_conv)
  then show ?thesis by (simp add: corr_getitem_def)
qed





lemma correlations_absent:
  assumes "target \<notin> set (columns df)"
  shows "correlations L df target = Inl (case corr L df of Inl e \<Rightarrow> e | Inr m \<Rightarrow> KeyError target)"
proof (cases "corr L df")
  case (Inl e)
  then show ?thesis by (simp add: correlations_def)
next
  case (Inr m)
  from corr_labels [OF Inr] corr_columns_subset [of L df] assms
  have "target \<notin> set (cm_labels m)" by (auto simp: columns_def)
  with Inr show ?thesis by (simp add: correlations_def corr_getitem_absent)
qed


lemma empty_iff_image: "set xs = f ` set ys \<Longrightarrow> (xs = []) = (ys = [])"
proof -
  assume "set xs = f ` set ys"
  then have "(set xs = {}) = (set ys = {})" by simp
  then show ?thesis by simp
qed


section \<open>The example inputs, evaluated\<close>

lemma corr_example:
  "corr example_library post_frame =
     Inr \<lparr>cm_labels = [''views'', ''likes'', ''comments'', ''shares''],
          cm_entries = [[Some 1, Some (- 1), None, Some 1],
                        [Some (- 1), Some 1, None, Some (- 1)],
                        [None, None, None, None],
                        [Some 1, Some (- 1), None, Some 1]]\<rparr>"
  by (simp add: corr_def corr_columns_def example_library_def post_frame_def nancorr_two_rows
      upt_rec [of _ "Suc _"] numeral_eq_Suc)


lemma importances_example:
  "forest_importances example_library 100 0
     \<lparr>nrows = 2, cols = [(''likes'', Column Int64 [Num 5, Num 3]),
                           (''comments'', Column Float64 [Num 2, Num 2]),
                           (''shares'', Column Int64 [Num 0, Num 7])]\<rparr>
     (Series (Column Int64 [Num 1, Num 2]))
   = Inr [Some (1/2), Some (1/3), Some (1/6)]"
  by (simp add: example_library_def example_importances_def upt_rec [of _ "Suc _"] numeral_eq_Suc)

lemma feature_importance_example:
  "plot_feature_importance example_library 0 \<lparr>post_data = post_frame\<rparr> ''views'' =
     ([RandomForestRegressor_fit 100
         \<lparr>nrows = 2, cols = [(''likes'', Column Int64 [Num 5, Num 3]),
                               (''comments'', Column Float64 [Num 2, Num 2]),
                               (''shares'', Column Int64 [Num 0, Num 7])]\<rparr>
         (Series (Column Int64 [Num 1, Num 2])),
       Figure 15 12,
       Barh [''shares'', ''comments'', ''likes''] [Some (1/6), Some (1/3), Some (1/2)],
       Xlabel ''Feature Importance'', Show],
      None, \<lparr>post_data = post_frame\<rparr>)"
  by (simp add: plot_feature_importance_def drop_column_def getitem_def post_frame_def columns_def
      example_library_def example_importances_def argsort_def sort_by_def take_positions_def
      upt_rec [of _ "Suc _"] numeral_eq_Suc)


section \<open>The distribution views\<close>

lemma numeric_loop_series:
  "distinct (columns d) \<Longrightarrow> set ps \<subseteq> set (cols d) \<Longrightarrow>
   numeric_loop d (map fst ps) =
     (concat (map (\<lambda>(n, c). [Figure 12 6, Histplot (Series c) True,
                               Title (''Distribution of '' @ n), Show]) ps), None)"
proof (induction ps)
  case Nil
  then show ?case by simp
next
  case (Cons p ps)
  obtain n c where p: "p = (n, c)" by (cases p)
  with Cons.prems have "getitem d n = Inr (Series c)" by (simp add: getitem_unique)
  with Cons p show ?case by simp
qed

lemma categorical_loop_calls:
  "categorical_loop d names =
     (concat (map (\<lambda>n. [Figure 12 6, Countplot d n, Title (''Distribution of '' @ n),
                          Xticks_rotation 45, Show]) names), None)"
  by (induction names) auto

text \<open>
  What the two distribution views do. On a frame with unique labels,
  \<^verbatim>\<open>plot_numeric_distribution\<close> renders, for exactly the columns of dtype \<^verbatim>\<open>int64\<close> or
  \<^verbatim>\<open>float64\<close>, in the frame's order, one figure with the histogram of the column with
  \<^verbatim>\<open>kde=True\<close>, titled with the column's name, and \<^verbatim>\<open>plot_categorical_distribution\<close>
  renders one count plot for exactly the columns of dtype \<^verbatim>\<open>object\<close>. Neither raises.
\<close>

lemma distribution_views_columns:
  "distinct (columns (data self)) \<Longrightarrow>
   plot_numeric_distribution self =
     (concat (map (\<lambda>(n, c). [Figure 12 6, Histplot (Series c) True,
                               Title (''Distribution of '' @ n), Show])
                  (filter (\<lambda>(n, c). col_dtype c = Int64 \<or> col_dtype c = Float64) (cols (data self)))),
      None, self) \<and>
   plot_categorical_distribution self =
     (concat (map (\<lambda>n. [Figure 12 6, Countplot (data self) n, Title (''Distribution of '' @ n),
                          Xticks_rotation 45, Show])
                  (map fst (filter (\<lambda>(n, c). col_dtype c = Object) (cols (data self))))),
      None, self)"
proof -
  assume d: "distinct (columns (data self))"
  let ?ps = "filter (\<lambda>(n, c). col_dtype c = Int64 \<or> col_dtype c = Float64) (cols (data self))"
  have sel: "columns (select_dtypes [Int64, Float64] (data self)) = map fst ?ps"
    by (simp add: columns_def select_dtypes_def)
  have "set ?ps \<subseteq> set (cols (data self))" by auto
  from numeric_loop_series [OF d this] sel
  have "plot_numeric_distribution self =
     (concat (map (\<lambda>(n, c). [Figure 12 6, Histplot (Series c) True,
                               Title (''Distribution of '' @ n), Show]) ?ps), None, self)"
    by (simp add: plot_numeric_distribution_def)
  moreover have "columns (select_dtypes [Object] (data self)) =
      map fst (filter (\<lambda>(n, c). col_dtype c = Object) (cols (data self)))"
    by (simp add: columns_def select_dtypes_def)
  then have "plot_categorical_distribution self =
     (concat (map (\<lambda>n. [Figure 12 6, Countplot (data self) n, Title (''Distribution of '' @ n),
                          Xticks_rotation 45, Show])
                  (map fst (filter (\<lambda>(n, c). col_dtype c = Object) (cols (data self))))),
      None, self)"
    by (simp add: plot_categorical_distribution_def categorical_loop_calls)
  ultimately show ?thesis by simp
qed

text \<open>For the frame with numeric columns A, B and the object column C, the numeric view
  processes A and B, the categorical view C.\<close>

lemma distribution_views_abc_frame:
  "distinct (columns abc_frame) \<and>
   plot_numeric_distribution \<lparr>data = abc_frame\<rparr> =
     ([Figure 12 6, Histplot (Series (Column Int64 [Num 3, Num 5])) True, Title ''Distribution of A'', Show,
       Figure 12 6, Histplot (Series (Column Float64 [Num (1/2), Missing])) True, Title ''Distribution of B'', Show],
      None, \<lparr>data = abc_frame\<rparr>) \<and>
   plot_categorical_distribution \<lparr>data = abc_frame\<rparr> =
     ([Figure 12 6, Countplot abc_frame ''C'', Title ''Distribution of C'', Xticks_rotation 45, Show],
      None, \<lparr>data = abc_frame\<rparr>)"
proof -
  have d: "distinct (columns (data \<lparr>data = abc_frame\<rparr>))"
    by (simp add: columns_def abc_frame_def)
  from distribution_views_columns [OF d] d show ?thesis
    by (simp add: abc_frame_def)
qed

text \<open>
  C4. The numeric view is to process exactly the columns whose values are integer- or
  floating-point-typed; the docstring of \<^verbatim>\<open>plot_numeric_distribution\<close> says "all numeric
  columns in the dataset". The code selects the dtypes \<^verbatim>\<open>int64\<close> and \<^verbatim>\<open>float64\<close> only: on
  a frame whose one column is of dtype \<^verbatim>\<open>int32\<close>, an integer-typed column, it renders
  nothing.
\<close>

theorem numeric_view_skips_int32:
  "integer_or_float_typed (col_dtype (Column Int32 [Num 3, Num 5])) \<and>
   cols int32_frame = [(''views'', Column Int32 [Num 3, Num 5])] \<and>
   plot_numeric_distribution \<lparr>data = int32_frame\<rparr> = ([], None, \<lparr>data = int32_frame\<rparr>)"
  by (simp add: integer_or_float_typed_def int32_frame_def plot_numeric_distribution_def
      select_dtypes_def columns_def)

section \<open>Scatter plots, absent columns, the frame property, the two heatmaps\<close>

lemma scatter_loop_calls:
  "target \<in> set (columns d) \<Longrightarrow> set fs \<subseteq> set (columns d) \<Longrightarrow>
   scatter_loop d target fs =
     (concat (map (\<lambda>f. [Figure 10 6, Scatterplot d f target, Title (f @ '' vs. '' @ target), Show]) fs),
      None)"
  by (induction fs) (auto simp: sns_scatterplot_def)

text \<open>
  C10. On a frame whose only column is the target, \<^verbatim>\<open>plot_scatterplots\<close> renders nothing
  and raises nothing. On a frame (with unique labels) that has the target, it renders
  exactly one scatter chart per column other than the target, in the frame's column
  order, each titled \<^verbatim>\<open>feature vs. target\<close>, and raises nothing.
\<close>

theorem scatterplots_one_per_feature:
  "(columns (post_data self) = [target] \<longrightarrow> plot_scatterplots self target = ([], None, self)) \<and>
   (distinct (columns (post_data self)) \<and> target \<in> set (columns (post_data self)) \<longrightarrow>
      plot_scatterplots self target =
        (concat (map (\<lambda>f. [Figure 10 6, Scatterplot (post_data self) f target,
                              Title (f @ '' vs. '' @ target), Show])
                     (filter (\<lambda>col. col \<noteq> target) (columns (post_data self)))),
         None, self))"
proof (intro conjI impI)
  assume "columns (post_data self) = [target]"
  then show "plot_scatterplots self target = ([], None, self)"
    by (simp add: plot_scatterplots_def features_def)
next
  assume "distinct (columns (post_data self)) \<and> target \<in> set (columns (post_data self))"
  then have t: "target \<in> set (columns (post_data self))" by simp
  have "set (features (post_data self) target) \<subseteq> set (columns (post_data self))"
    by (auto simp: features_def)
  from scatter_loop_calls [OF t this]
  show "plot_scatterplots self target =
        (concat (map (\<lambda>f. [Figure 10 6, Scatterplot (post_data self) f target,
                              Title (f @ '' vs. '' @ target), Show])
                     (filter (\<lambda>col. col \<noteq> target) (columns (post_data self)))),
         None, self)"
    by (simp add: plot_scatterplots_def features_def)
qed

text \<open>The frame that holds the target only, and the frame of four columns.\<close>

theorem scatterplots_one_per_feature_witness:
  "columns (post_data \<lparr>post_data = target_only_frame\<rparr>) = [''views''] \<and>
   plot_scatterplots \<lparr>post_data = target_only_frame\<rparr> ''views'' =
     ([], None, \<lparr>post_data = target_only_frame\<rparr>) \<and>
   distinct (columns post_frame) \<and> ''views'' \<in> set (columns post_frame) \<and>
   plot_scatterplots \<lparr>post_data = post_frame\<rparr> ''views'' =
     ([Figure 10 6, Scatterplot post_frame ''likes'' ''views'', Title ''likes vs. views'', Show,
       Figure 10 6, Scatterplot post_frame ''comments'' ''views'', Title ''comments vs. views'', Show,
       Figure 10 6, Scatterplot post_frame ''shares'' ''views'', Title ''shares vs. views'', Show],
      None, \<lparr>post_data = post_frame\<rparr>)"
proof -
  have c1: "columns (post_data \<lparr>post_data = target_only_frame\<rparr>) = [''views'']"
    by (simp add: columns_def target_only_frame_def)
  have c2: "columns (post_data \<lparr>post_data = post_frame\<rparr>) = [''views'', ''likes'', ''comments'', ''shares'']"
    by (simp add: columns_def post_frame_def)
  from scatterplots_one_per_feature [of "\<lparr>post_data = target_only_frame\<rparr>" "''views''"]
    scatterplots_one_per_feature [of "\<lparr>post_data = post_frame\<rparr>" "''views''"] c1 c2
  show ?thesis by simp
qed

text \<open>
  C6 (as amended). A grouping name that is not a column makes the two-way view end with
  pandas' \<^verbatim>\<open>KeyError\<close> for the first such name; a target that is not a column makes the
  ranking end with the library's error (\<^verbatim>\<open>KeyError\<close> for the target, or the error of
  \<^verbatim>\<open>corr\<close> itself); it makes the scatter view end with seaborn's \<^verbatim>\<open>ValueError\<close> at the
  first chart when the frame has a column. In each case the error reaches the caller as
  the library raised it, and nothing is rendered past an opened figure.
\<close>

theorem absent_column_raises:
  "(a \<notin> set (columns (data pre)) \<or> b \<notin> set (columns (data pre)) \<longrightarrow>
      (\<exists>e. plot_channel_category_counts pre a b = ([], Some e, pre))) \<and>
   (distinct (columns (data pre)) \<and> (a \<notin> set (columns (data pre)) \<or> b \<notin> set (columns (data pre))) \<longrightarrow>
      plot_channel_category_counts pre a b =
        ([], Some (KeyError (if a \<notin> set (columns (data pre)) then a else b)), pre)) \<and>
   (target \<notin> set (columns (post_data post)) \<longrightarrow>
      plot_correlation_analysis L post target =
        ([], Some (case corr L (post_data post) of Inl e \<Rightarrow> e | Inr m \<Rightarrow> KeyError target), post)) \<and>
   (target \<notin> set (columns (post_data post)) \<and> columns (post_data post) \<noteq> [] \<longrightarrow>
      plot_scatterplots post target = ([Figure 10 6], Some ValueError, post))"
proof (intro conjI impI)
  assume h: "a \<notin> set (columns (data pre)) \<or> b \<notin> set (columns (data pre))"
  show "\<exists>e. plot_channel_category_counts pre a b = ([], Some e, pre)"
  proof (cases "group_key (data pre) a")
    case (Inl e)
    then show ?thesis
      by (simp add: plot_channel_category_counts_def grouped_def groupby_size_def)
  next
    case (Inr k1)
    then have "a \<in> set (columns (data pre))"
      using group_key_absent [of a "data pre"] by auto
    with h have "group_key (data pre) b = Inl (KeyError b)"
      by (simp add: group_key_absent)
    with Inr show ?thesis
      by (simp add: plot_channel_category_counts_def grouped_def groupby_size_def)
  qed
next
  assume h: "distinct (columns (data pre)) \<and> (a \<notin> set (columns (data pre)) \<or> b \<notin> set (columns (data pre)))"
  show "plot_channel_category_counts pre a b =
        ([], Some (KeyError (if a \<notin> set (columns (data pre)) then a else b)), pre)"
  proof (cases "a \<in> set (columns (data pre))")
    case False
    then show ?thesis
      by (simp add: plot_channel_category_counts_def grouped_def groupby_size_def group_key_absent)
  next
    case True
    with h have b: "b \<notin> set (columns (data pre))" by simp
    from h True obtain c where "group_key (data pre) a = Inr (col_values c)"
      using group_key_cases by blast
    with True b show ?thesis
      by (simp add: plot_channel_category_counts_def grouped_def groupby_size_def group_key_absent)
  qed
next
  assume "target \<notin> set (columns (post_data post))"
  then show "plot_correlation_analysis L post target =
        ([], Some (case corr L (post_data post) of Inl e \<Rightarrow> e | Inr m \<Rightarrow> KeyError target), post)"
    by (simp add: plot_correlation_analysis_def correlations_absent)
next
  assume h: "target \<notin> set (columns (post_data post)) \<and> columns (post_data post) \<noteq> []"
  then obtain f fs where fs: "columns (post_data post) = f # fs" by (cases "columns (post_data post)") auto
  with h have "f \<noteq> target" by auto
  with fs have "features (post_data post) target = f # filter (\<lambda>col. col \<noteq> target) fs"
    by (simp add: features_def)
  with h show "plot_scatterplots post target = ([Figure 10 6], Some ValueError, post)"
    by (simp add: plot_scatterplots_def sns_scatterplot_def)
qed

text \<open>Names that are absent from the example frames.\<close>

theorem absent_column_raises_witness:
  "distinct (columns abc_frame) \<and> ''Z'' \<notin> set (columns abc_frame) \<and>
   plot_channel_category_counts \<lparr>data = abc_frame\<rparr> ''C'' ''Z'' =
     ([], Some (KeyError ''Z''), \<lparr>data = abc_frame\<rparr>) \<and>
   ''missing'' \<notin> set (columns post_frame) \<and> columns post_frame \<noteq> [] \<and>
   plot_correlation_analysis example_library \<lparr>post_data = post_frame\<rparr> ''missing'' =
     ([], Some (KeyError ''missing''), \<lparr>post_data = post_frame\<rparr>) \<and>
   plot_scatterplots \<lparr>post_data = post_frame\<rparr> ''missing'' =
     ([Figure 10 6], Some ValueError, \<lparr>post_data = post_frame\<rparr>)"
proof -
  have d: "distinct (columns (data \<lparr>data = abc_frame\<rparr>))"
    and z: "''Z'' \<notin> set (columns (data \<lparr>data = abc_frame\<rparr>))"
    and cc: "''C'' \<in> set (columns (data \<lparr>data = abc_frame\<rparr>))"
    by (simp_all add: columns_def abc_frame_def)
  have absent: "''missing'' \<notin> set (columns (post_data \<lparr>post_data = post_frame\<rparr>))"
    and ne: "columns (post_data \<lparr>post_data = post_frame\<rparr>) \<noteq> []"
    by (simp_all add: columns_def post_frame_def)
  from absent_column_raises [where pre = "\<lparr>data = abc_frame\<rparr>" and a = "''C''" and b = "''Z''"
      and target = "''missing''" and post = "\<lparr>post_data = post_frame\<rparr>" and L = example_library]
    d z cc absent ne
  show ?thesis by (simp add: corr_example)
qed

text \<open>On a frame without columns the scatter view of an absent target renders nothing
  and raises nothing.\<close>

theorem scatter_absent_column_counterexample:
  "''views'' \<notin> set (columns empty_frame) \<and>
   plot_scatterplots \<lparr>post_data = empty_frame\<rparr> ''views'' = ([], None, \<lparr>post_data = empty_frame\<rparr>)"
  by (simp add: empty_frame_def columns_def plot_scatterplots_def features_def)

text \<open>
  C7. After each of the eight operations, whether it ended normally or with an error, the
  component holds the dataset it held before; \<^verbatim>\<open>plot_feature_importance\<close> drops the target
  from a new frame, not from the stored one.
\<close>

theorem dataset_never_mutated:
  "snd (snd (plot_numeric_distribution pre)) = pre \<and>
   snd (snd (plot_categorical_distribution pre)) = pre \<and>
   snd (snd (plot_channel_category_counts pre a b)) = pre \<and>
   snd (snd (plot_heatmap L pre)) = pre \<and>
   snd (snd (post_plot_heatmap L post)) = post \<and>
   snd (snd (plot_correlation_analysis L post target)) = post \<and>
   snd (snd (plot_scatterplots post target)) = post \<and>
   snd (snd (plot_feature_importance L seed post target)) = post"
proof (intro conjI)
  show "snd (snd (plot_numeric_distribution pre)) = pre"
    by (simp add: plot_numeric_distribution_def split: prod.splits)
  show "snd (snd (plot_categorical_distribution pre)) = pre"
    by (simp add: plot_categorical_distribution_def split: prod.splits)
  show "snd (snd (plot_channel_category_counts pre a b)) = pre"
    by (simp add: plot_channel_category_counts_def split: sum.splits)
  show "snd (snd (plot_heatmap L pre)) = pre"
    by (simp add: plot_heatmap_def split: sum.splits)
  show "snd (snd (post_plot_heatmap L post)) = post"
    by (simp add: post_plot_heatmap_def split: sum.splits)
  show "snd (snd (plot_correlation_analysis L post target)) = post"
    by (simp add: plot_correlation_analysis_def split: sum.splits)
  show "snd (snd (plot_scatterplots post target)) = post"
    by (simp add: plot_scatterplots_def split: prod.splits)
  show "snd (snd (plot_feature_importance L seed post target)) = post"
    by (simp add: plot_feature_importance_def Let_def split: sum.splits)
qed

text \<open>
  C9. On the same dataset the two \<^verbatim>\<open>plot_heatmap\<close> operations issue the same calls and end
  the same way; when they end normally the calls are a 12 by 12 figure, the heatmap of
  the dataset's correlation matrix with \<^verbatim>\<open>annot=True\<close>, \<^verbatim>\<open>cmap="coolwarm"\<close> and
  \<^verbatim>\<open>center=0\<close>, the title and \<^verbatim>\<open>show\<close>.
\<close>

theorem heatmap_same_contract:
  "fst (plot_heatmap L \<lparr>data = d\<rparr>) = fst (post_plot_heatmap L \<lparr>post_data = d\<rparr>) \<and>
   fst (snd (plot_heatmap L \<lparr>data = d\<rparr>)) = fst (snd (post_plot_heatmap L \<lparr>post_data = d\<rparr>)) \<and>
   (fst (snd (plot_heatmap L \<lparr>data = d\<rparr>)) = None) =
     (\<exists>m. corr L d = Inr m \<and>
        fst (plot_heatmap L \<lparr>data = d\<rparr>) =
          [Figure 12 12, Heatmap m True ''coolwarm'' 0, Title ''Correlation Heatmap'', Show])"
  by (auto simp: plot_heatmap_def post_plot_heatmap_def sns_heatmap_def split: sum.splits)

text \<open>The heatmap of the example frame, through the second class.\<close>

theorem heatmap_same_contract_witness:
  "fst (post_plot_heatmap example_library \<lparr>post_data = post_frame\<rparr>) =
     [Figure 12 12,
      Heatmap \<lparr>cm_labels = [''views'', ''likes'', ''comments'', ''shares''],
          cm_entries = [[Some 1, Some (- 1), None, Some 1],
                        [Some (- 1), Some 1, None, Some (- 1)],
                        [None, None, None, None],
                        [Some 1, Some (- 1), None, Some 1]]\<rparr> True ''coolwarm'' 0,
      Title ''Correlation Heatmap'', Show]"
proof -
  have "fst (plot_heatmap example_library \<lparr>data = post_frame\<rparr>) =
     [Figure 12 12,
      Heatmap \<lparr>cm_labels = [''views'', ''likes'', ''comments'', ''shares''],
          cm_entries = [[Some 1, Some (- 1), None, Some 1],
                        [Some (- 1), Some 1, None, Some (- 1)],
                        [None, None, None, None],
                        [Some 1, Some (- 1), None, Some 1]]\<rparr> True ''coolwarm'' 0,
      Title ''Correlation Heatmap'', Show]"
    by (simp add: plot_heatmap_def corr_example sns_heatmap_def)
  with heatmap_same_contract [of example_library post_frame] show ?thesis by simp
qed

section \<open>The heatmap\<close>




section \<open>Feature importance\<close>

lemma mset_argsort: "mset (argsort a) = mset [0..<length a]"
  by (simp add: argsort_def mset_sort_by)

lemma set_argsort: "set (argsort a) = {0..<length a}"
  by (metis mset_argsort set_mset_mset set_upt)

lemma sorted_argsort: "sorted_wrt asc_le (map (\<lambda>i. a ! i) (argsort a))"
proof -
  have "sorted_wrt (\<lambda>i j. asc_le (a ! i) (a ! j)) (argsort a)"
    unfolding argsort_def
  proof (rule sorted_sort_by)
    show "asc_le (a ! i) (a ! j) \<or> asc_le (a ! j) (a ! i)" for i j
      by (rule asc_le_total)
    show "asc_le (a ! i) (a ! j) \<Longrightarrow> asc_le (a ! j) (a ! k) \<Longrightarrow> asc_le (a ! i) (a ! k)" for i j k
      by (rule asc_le_trans)
  qed
  then show ?thesis by (simp add: sorted_wrt_map)
qed

lemma zip_as_map:
  "length xs = length ys \<Longrightarrow> zip xs ys = map (\<lambda>i. (xs ! i, ys ! i)) [0..<length xs]"
  by (auto intro: nth_equalityI)

lemma mset_zip_argsort:
  assumes "length names = length a"
  shows "mset (zip (map (\<lambda>i. names ! i) (argsort a)) (map (\<lambda>i. a ! i) (argsort a))) = mset (zip names a)"
proof -
  have "zip (map (\<lambda>i. names ! i) (argsort a)) (map (\<lambda>i. a ! i) (argsort a))
        = map (\<lambda>i. (names ! i, a ! i)) (argsort a)"
    by (simp add: zip_map_map [where xs = "argsort a" and ys = "argsort a", simplified] zip_same_conv_map)
  then have "mset (zip (map (\<lambda>i. names ! i) (argsort a)) (map (\<lambda>i. a ! i) (argsort a)))
        = image_mset (\<lambda>i. (names ! i, a ! i)) (mset (argsort a))"
    by simp
  also have "\<dots> = mset (map (\<lambda>i. (names ! i, a ! i)) [0..<length names])"
    using assms by (simp add: mset_argsort)
  also have "\<dots> = mset (zip names a)"
    using assms by (simp add: zip_as_map)
  finally show ?thesis .
qed

lemma take_positions_argsort:
  "length names = length a \<Longrightarrow> take_positions names (argsort a) = Inr (map (\<lambda>i. names ! i) (argsort a))"
  by (simp add: take_positions_def list_all_iff set_argsort)

text \<open>
  C5. When the target is a column and the fit succeeds, \<^verbatim>\<open>plot_feature_importance\<close> fits
  a forest of 100 trees on \<open>X\<close>, all columns but the target with every row of the dataset,
  and \<open>y\<close>, the target; it renders one horizontal bar chart of the importances the model
  reports, each with its column's label, in ascending order. Nothing is kept between
  calls: a further call on the component starts with a fit of its own.
\<close>

theorem feature_importance_steps:
  assumes X: "drop_column (post_data self) target = Inr X"
    and y: "getitem (post_data self) target = Inr y"
    and fit: "forest_importances L 100 seed X y = Inr importances"
    and len: "length importances = length (columns X)"
  shows "cols X = filter (\<lambda>(n, c). n \<noteq> target) (cols (post_data self)) \<and>
         nrows X = nrows (post_data self) \<and>
         (\<exists>labels widths.
            plot_feature_importance L seed self target =
              ([RandomForestRegressor_fit 100 X y, Figure 15 12, Barh labels widths,
                Xlabel ''Feature Importance'', Show], None, self) \<and>
            sorted_wrt asc_le widths \<and>
            mset (zip labels widths) = mset (zip (columns X) importances)) \<and>
         (\<forall>seed'. take 1 (fst (plot_feature_importance L seed'
                      (snd (snd (plot_feature_importance L seed self target))) target))
                   = [RandomForestRegressor_fit 100 X y])"
proof (intro conjI)
  from drop_column_cols [OF X]
  show "cols X = filter (\<lambda>(n, c). n \<noteq> target) (cols (post_data self))"
    and "nrows X = nrows (post_data self)" by simp_all
next
  let ?labels = "map (\<lambda>i. columns X ! i) (argsort importances)"
  let ?widths = "map (\<lambda>i. importances ! i) (argsort importances)"
  from len have tp: "take_positions (columns X) (argsort importances) = Inr ?labels"
    by (simp add: take_positions_argsort)
  have "plot_feature_importance L seed self target =
          ([RandomForestRegressor_fit 100 X y, Figure 15 12, Barh ?labels ?widths,
            Xlabel ''Feature Importance'', Show], None, self)"
    by (simp add: plot_feature_importance_def X y fit tp Let_def)
  moreover have "sorted_wrt asc_le ?widths" by (rule sorted_argsort)
  moreover from len have "mset (zip ?labels ?widths) = mset (zip (columns X) importances)"
    by (simp add: mset_zip_argsort)
  ultimately show "\<exists>labels widths.
            plot_feature_importance L seed self target =
              ([RandomForestRegressor_fit 100 X y, Figure 15 12, Barh labels widths,
                Xlabel ''Feature Importance'', Show], None, self) \<and>
            sorted_wrt asc_le widths \<and>
            mset (zip labels widths) = mset (zip (columns X) importances)"
    by blast
next
  have same: "snd (snd (plot_feature_importance L seed self target)) = self"
    by (simp add: plot_feature_importance_def Let_def split: sum.splits)
  show "\<forall>seed'. take 1 (fst (plot_feature_importance L seed'
                      (snd (snd (plot_feature_importance L seed self target))) target))
                   = [RandomForestRegressor_fit 100 X y]"
    unfolding same
    by (simp add: plot_feature_importance_def X y Let_def split: sum.splits)
qed

text \<open>The example frame with the target \<^verbatim>\<open>views\<close>: the bars are the importances in ascending
  order, each with its column.\<close>

theorem feature_importance_steps_witness:
  "drop_column post_frame ''views'' =
     Inr \<lparr>nrows = 2, cols = [(''likes'', Column Int64 [Num 5, Num 3]),
                               (''comments'', Column Float64 [Num 2, Num 2]),
                               (''shares'', Column Int64 [Num 0, Num 7])]\<rparr> \<and>
   getitem post_frame ''views'' = Inr (Series (Column Int64 [Num 1, Num 2])) \<and>
   plot_feature_importance example_library 0 \<lparr>post_data = post_frame\<rparr> ''views'' =
     ([RandomForestRegressor_fit 100
         \<lparr>nrows = 2, cols = [(''likes'', Column Int64 [Num 5, Num 3]),
                               (''comments'', Column Float64 [Num 2, Num 2]),
                               (''shares'', Column Int64 [Num 0, Num 7])]\<rparr>
         (Series (Column Int64 [Num 1, Num 2])),
       Figure 15 12,
       Barh [''shares'', ''comments'', ''likes''] [Some (1/6), Some (1/3), Some (1/2)],
       Xlabel ''Feature Importance'', Show],
      None, \<lparr>post_data = post_frame\<rparr>) \<and>
   sorted_wrt asc_le [Some (1/6), Some (1/3), Some (1/2)] \<and>
   mset (zip [''shares'', ''comments'', ''likes''] [Some (1/6), Some (1/3), Some (1/2 :: real)]) =
     mset [(''likes'', Some (1/2)), (''comments'', Some (1/3)), (''shares'', Some (1/6))]"
proof -
  let ?X = "\<lparr>nrows = 2, cols = [(''likes'', Column Int64 [Num 5, Num 3]),
                               (''comments'', Column Float64 [Num 2, Num 2]),
                               (''shares'', Column Int64 [Num 0, Num 7])]\<rparr>"
  let ?y = "Series (Column Int64 [Num 1, Num 2])"
  let ?imps = "[Some (1/2), Some (1/3), Some (1/6 :: real)]"
  have X: "drop_column (post_data \<lparr>post_data = post_frame\<rparr>) ''views'' = Inr ?X"
    by (simp add: drop_column_def post_frame_def columns_def)
  have y: "getitem (post_data \<lparr>post_data = post_frame\<rparr>) ''views'' = Inr ?y"
    by (simp add: getitem_def post_frame_def)
  have len: "length ?imps = length (columns ?X)"
    by (simp add: columns_def)
  have z: "zip (columns ?X) ?imps = [(''likes'', Some (1/2)), (''comments'', Some (1/3)), (''shares'', Some (1/6))]"
    by (simp add: columns_def)
  note steps = feature_importance_steps [OF X y importances_example len]
  from steps [THEN conjunct2, THEN conjunct2, THEN conjunct1]
  have ex: "\<exists>labels widths.
      plot_feature_importance example_library 0 \<lparr>post_data = post_frame\<rparr> ''views'' =
        ([RandomForestRegressor_fit 100 ?X ?y,
          Figure 15 12, Barh labels widths, Xlabel ''Feature Importance'', Show],
         None, \<lparr>post_data = post_frame\<rparr>) \<and>
      sorted_wrt asc_le widths \<and>
      mset (zip labels widths) =
        mset [(''likes'', Some (1/2)), (''comments'', Some (1/3)), (''shares'', Some (1/6))]"
    unfolding z .
  have X': "drop_column post_frame ''views'' = Inr ?X" using X by simp
  have y': "getitem post_frame ''views'' = Inr ?y" using y by simp
  from ex obtain labels widths where
    p: "plot_feature_importance example_library 0 \<lparr>post_data = post_frame\<rparr> ''views'' =
        ([RandomForestRegressor_fit 100 ?X ?y,
          Figure 15 12, Barh labels widths, Xlabel ''Feature Importance'', Show],
         None, \<lparr>post_data = post_frame\<rparr>)"
    and so: "sorted_wrt asc_le widths"
    and ms: "mset (zip labels widths) =
        mset [(''likes'', Some (1/2)), (''comments'', Some (1/3)), (''shares'', Some (1/6))]"
    by blast
  from p have l: "labels = [''shares'', ''comments'', ''likes'']"
    and v: "widths = [Some (1/6), Some (1/3), Some (1/2)]"
    by (simp_all add: feature_importance_example)
  from X' y' feature_importance_example so ms show ?thesis
    unfolding l v by (intro conjI)
qed

section \<open>The correlation ranking\<close>







section \<open>The two-way count table\<close>

lemma map_of_counts:
  "map_of (map (\<lambda>k. (k, count_list rows k)) ks) x =
     (if x \<in> set ks then Some (count_list rows x) else None)"
  by (induction ks) auto

lemma entry_count:
  "set ks = set rows \<Longrightarrow>
   (case map_of (map (\<lambda>k. (k, count_list rows k)) ks) x of None \<Rightarrow> 0 | Some n \<Rightarrow> n) = count_list rows x"
  by (simp add: map_of_counts)

lemma sum_list_counts_product:
  assumes "distinct rs" and "distinct cs" and "set rows \<subseteq> set rs \<times> set cs"
  shows "sum_list (map (\<lambda>r. sum_list (map (\<lambda>c. count_list rows (r, c)) cs)) rs) = length rows"
proof -
  have "sum_list (map (\<lambda>r. sum_list (map (\<lambda>c. count_list rows (r, c)) cs)) rs)
        = (\<Sum>r\<in>set rs. \<Sum>c\<in>set cs. count_list rows (r, c))"
    using assms(1,2) by (simp add: sum_list_distinct_conv_sum_set)
  also have "\<dots> = (\<Sum>p\<in>set rs \<times> set cs. count_list rows p)"
    by (simp add: sum.cartesian_product)
  also have "\<dots> = length rows"
    using assms(3) by (simp add: sum_count_set)
  finally show ?thesis .
qed

lemma unstack_total:
  assumes "sizes = map (\<lambda>k. (k, count_list rows k)) ks" and "set ks = set rows"
  shows "table_total (unstack sizes) = length rows"
proof -
  let ?rs = "sort_by cell_le (remdups (map (fst \<circ> fst) sizes))"
  let ?cs = "sort_by cell_le (remdups (map (snd \<circ> fst) sizes))"
  have k1: "map (fst \<circ> fst) sizes = map fst ks" and k2: "map (snd \<circ> fst) sizes = map snd ks"
    using assms(1) by (simp_all add: comp_def)
  have rs: "set ?rs = fst ` set rows" "distinct ?rs"
    by (simp_all add: k1 set_sort_by distinct_sort_by assms(2) [symmetric])
  have cs: "set ?cs = snd ` set rows" "distinct ?cs"
    by (simp_all add: k2 set_sort_by distinct_sort_by assms(2) [symmetric])
  have sub: "set rows \<subseteq> set ?rs \<times> set ?cs"
    unfolding rs(1) cs(1) by force
  have "table_total (unstack sizes)
        = sum_list (map (\<lambda>r. sum_list (map (\<lambda>c. count_list rows (r, c)) ?cs)) ?rs)"
    unfolding table_total_def unstack_def Let_def
    by (simp add: comp_def assms(1) entry_count [OF assms(2)])
  also have "\<dots> = length rows"
    by (rule sum_list_counts_product [OF rs(2) cs(2) sub])
  finally show ?thesis .
qed

lemma unstack_shape:
  assumes "sizes = map (\<lambda>k. (k, count_list rows k)) ks" and "set ks = set rows"
  shows "set (ct_index (unstack sizes)) = fst ` set rows"
    and "set (ct_columns (unstack sizes)) = snd ` set rows"
    and "ct_values (unstack sizes) =
           map (\<lambda>r. map (\<lambda>c. if (r, c) \<in> set rows then Some (count_list rows (r, c)) else None)
                         (ct_columns (unstack sizes)))
               (ct_index (unstack sizes))"
proof -
  have k1: "map (fst \<circ> fst) sizes = map fst ks" and k2: "map (snd \<circ> fst) sizes = map snd ks"
    using assms(1) by (simp_all add: comp_def)
  show "set (ct_index (unstack sizes)) = fst ` set rows"
    by (simp add: unstack_def Let_def k1 set_sort_by assms(2) [symmetric])
  show "set (ct_columns (unstack sizes)) = snd ` set rows"
    by (simp add: unstack_def Let_def k2 set_sort_by assms(2) [symmetric])
  show "ct_values (unstack sizes) =
           map (\<lambda>r. map (\<lambda>c. if (r, c) \<in> set rows then Some (count_list rows (r, c)) else None)
                         (ct_columns (unstack sizes)))
               (ct_index (unstack sizes))"
    by (simp add: unstack_def Let_def assms(1) map_of_counts assms(2))
qed

text \<open>
  C1 (as amended). When both grouping names are columns of a well-formed dataset, the
  table of \<^verbatim>\<open>plot_channel_category_counts\<close> has the first keys as rows, the second keys as
  columns and, for each pair, the number of rows with that pair (\<^verbatim>\<open>NaN\<close> when there is
  none). Its total is the number of rows in which neither key is missing, which is the row
  count of the dataset when no key is missing. The table is rendered as a bar chart
  unless it is empty, when pandas raises \<^verbatim>\<open>TypeError\<close>.
\<close>

theorem two_way_counts_total:
  "wf_frame (data self) \<and> (a, ca) \<in> set (cols (data self)) \<and> (b, cb) \<in> set (cols (data self)) \<longrightarrow>
     (\<exists>t. grouped (data self) a b = Inr t \<and>
        set (ct_index t) = fst ` set (group_rows (col_values ca) (col_values cb)) \<and>
        set (ct_columns t) = snd ` set (group_rows (col_values ca) (col_values cb)) \<and>
        ct_values t =
          map (\<lambda>r. map (\<lambda>c. if (r, c) \<in> set (group_rows (col_values ca) (col_values cb))
                              then Some (count_list (group_rows (col_values ca) (col_values cb)) (r, c))
                              else None) (ct_columns t)) (ct_index t) \<and>
        table_total t = length (group_rows (col_values ca) (col_values cb)) \<and>
        (Missing \<notin> set (col_values ca) \<and> Missing \<notin> set (col_values cb) \<longrightarrow>
           table_total t = nrows (data self)) \<and>
        plot_channel_category_counts self a b =
          (if group_rows (col_values ca) (col_values cb) = [] then ([], Some TypeError, self)
           else ([Plot_bar t 15 7, Title (''Distribution of '' @ b @ '' by '' @ a),
                  Xticks_rotation 45, Show], None, self)))"
proof
  assume h: "wf_frame (data self) \<and> (a, ca) \<in> set (cols (data self)) \<and> (b, cb) \<in> set (cols (data self))"
  let ?rows = "group_rows (col_values ca) (col_values cb)"
  let ?ks = "sort_by pair_le (remdups ?rows)"
  let ?sizes = "map (\<lambda>k. (k, count_list ?rows k)) ?ks"
  from h have dist: "distinct (columns (data self))" by (simp add: wf_frame_def)
  from h dist have ka: "group_key (data self) a = Inr (col_values ca)"
    and kb: "group_key (data self) b = Inr (col_values cb)"
    by (simp_all add: group_key_present)
  have ks: "set ?ks = set ?rows" by (simp add: set_sort_by)
  have g: "grouped (data self) a b = Inr (unstack ?sizes)"
    by (simp add: grouped_def groupby_size_def ka kb Let_def)
  note shape = unstack_shape [OF refl ks]
  have total: "table_total (unstack ?sizes) = length ?rows"
    by (rule unstack_total [OF refl ks])
  have full: "table_total (unstack ?sizes) = nrows (data self)"
    if "Missing \<notin> set (col_values ca) \<and> Missing \<notin> set (col_values cb)"
  proof -
    from that have "?rows = zip (col_values ca) (col_values cb)"
      by (simp add: group_rows_no_missing)
    moreover from h have "length (col_values ca) = nrows (data self)"
      using wf_frame_column_length [of "data self" a ca] by blast
    moreover from h have "length (col_values cb) = nrows (data self)"
      using wf_frame_column_length [of "data self" b cb] by blast
    ultimately show ?thesis using total by simp
  qed
  have empty: "(ct_index (unstack ?sizes) = [] \<or> ct_columns (unstack ?sizes) = []) = (?rows = [])"
    by (simp add: empty_iff_image [OF shape(1)] empty_iff_image [OF shape(2)])
  have plot: "plot_channel_category_counts self a b =
          (if ?rows = [] then ([], Some TypeError, self)
           else ([Plot_bar (unstack ?sizes) 15 7, Title (''Distribution of '' @ b @ '' by '' @ a),
                  Xticks_rotation 45, Show], None, self))"
    using empty by (simp add: plot_channel_category_counts_def g plot_bar_def)
  show "\<exists>t. grouped (data self) a b = Inr t \<and>
        set (ct_index t) = fst ` set ?rows \<and>
        set (ct_columns t) = snd ` set ?rows \<and>
        ct_values t =
          map (\<lambda>r. map (\<lambda>c. if (r, c) \<in> set ?rows then Some (count_list ?rows (r, c)) else None)
                (ct_columns t)) (ct_index t) \<and>
        table_total t = length ?rows \<and>
        (Missing \<notin> set (col_values ca) \<and> Missing \<notin> set (col_values cb) \<longrightarrow>
           table_total t = nrows (data self)) \<and>
        plot_channel_category_counts self a b =
          (if ?rows = [] then ([], Some TypeError, self)
           else ([Plot_bar t 15 7, Title (''Distribution of '' @ b @ '' by '' @ a),
                  Xticks_rotation 45, Show], None, self))"
  proof (intro exI [of _ "unstack ?sizes"] conjI impI)
    show "grouped (data self) a b = Inr (unstack ?sizes)" by (rule g)
    show "set (ct_index (unstack ?sizes)) = fst ` set ?rows" by (rule shape(1))
    show "set (ct_columns (unstack ?sizes)) = snd ` set ?rows" by (rule shape(2))
    show "ct_values (unstack ?sizes) =
          map (\<lambda>r. map (\<lambda>c. if (r, c) \<in> set ?rows then Some (count_list ?rows (r, c)) else None)
                (ct_columns (unstack ?sizes))) (ct_index (unstack ?sizes))" by (rule shape(3))
    show "table_total (unstack ?sizes) = length ?rows" by (rule total)
    show "table_total (unstack ?sizes) = nrows (data self)"
      if "Missing \<notin> set (col_values ca) \<and> Missing \<notin> set (col_values cb)"
      using that by (rule full)
    show "plot_channel_category_counts self a b =
          (if ?rows = [] then ([], Some TypeError, self)
           else ([Plot_bar (unstack ?sizes) 15 7, Title (''Distribution of '' @ b @ '' by '' @ a),
                  Xticks_rotation 45, Show], None, self))" by (rule plot)
  qed
qed

lemma grouped_channel_frame:
  "grouped channel_frame ''channel_type'' ''category'' =
   Inr \<lparr>ct_index = [Str ''Games'', Str ''Music''], ct_columns = [Str ''Pop'', Str ''Rock''],
        ct_values = [[Some 1, None], [Some 1, Some 1]]\<rparr>"
  by (simp add: grouped_def groupby_size_def group_key_def getitem_def channel_frame_def
      group_rows_def sort_by_def unstack_def)

theorem two_way_counts_total_witness:
  "wf_frame channel_frame \<and>
   grouped channel_frame ''channel_type'' ''category'' =
     Inr \<lparr>ct_index = [Str ''Games'', Str ''Music''], ct_columns = [Str ''Pop'', Str ''Rock''],
          ct_values = [[Some 1, None], [Some 1, Some 1]]\<rparr> \<and>
   table_total \<lparr>ct_index = [Str ''Games'', Str ''Music''], ct_columns = [Str ''Pop'', Str ''Rock''],
          ct_values = [[Some 1, None], [Some 1, Some 1]]\<rparr> = nrows channel_frame"
proof -
  have wf: "wf_frame (data \<lparr>data = channel_frame\<rparr>)"
    by (simp add: wf_frame_def wf_column_def channel_frame_def columns_def)
  have a: "(''channel_type'', Column Object [Str ''Music'', Str ''Games'', Str ''Music''])
             \<in> set (cols (data \<lparr>data = channel_frame\<rparr>))"
    and b: "(''category'', Column Object [Str ''Pop'', Str ''Pop'', Str ''Rock''])
             \<in> set (cols (data \<lparr>data = channel_frame\<rparr>))"
    by (simp_all add: channel_frame_def)
  have m: "Missing \<notin> set (col_values (Column Object [Str ''Music'', Str ''Games'', Str ''Music''])) \<and>
           Missing \<notin> set (col_values (Column Object [Str ''Pop'', Str ''Pop'', Str ''Rock'']))"
    by simp
  from two_way_counts_total [of "\<lparr>data = channel_frame\<rparr>" "''channel_type''"
      "Column Object [Str ''Music'', Str ''Games'', Str ''Music'']" "''category''"
      "Column Object [Str ''Pop'', Str ''Pop'', Str ''Rock'']"] wf a b
  obtain t where t: "grouped (data \<lparr>data = channel_frame\<rparr>) ''channel_type'' ''category'' = Inr t"
    and tot: "Missing \<notin> set (col_values (Column Object [Str ''Music'', Str ''Games'', Str ''Music''])) \<and>
           Missing \<notin> set (col_values (Column Object [Str ''Pop'', Str ''Pop'', Str ''Rock''])) \<longrightarrow>
           table_total t = nrows (data \<lparr>data = channel_frame\<rparr>)"
    by blast
  from t have "t = \<lparr>ct_index = [Str ''Games'', Str ''Music''], ct_columns = [Str ''Pop'', Str ''Rock''],
          ct_values = [[Some 1, None], [Some 1, Some 1]]\<rparr>"
    by (simp add: grouped_channel_frame)
  with tot m wf show ?thesis
    by (simp add: grouped_channel_frame)
qed

text \<open>A dataset of two rows, one with a missing first key: the table's total is 1.\<close>

theorem two_way_counts_missing_key_counterexample:
  "wf_frame missing_key_frame \<and>
   grouped missing_key_frame ''channel_type'' ''category'' =
     Inr \<lparr>ct_index = [Str ''Music''], ct_columns = [Str ''Pop''], ct_values = [[Some 1]]\<rparr> \<and>
   table_total \<lparr>ct_index = [Str ''Music''], ct_columns = [Str ''Pop''], ct_values = [[Some 1]]\<rparr> = 1 \<and>
   nrows missing_key_frame = 2"
  by (simp add: grouped_def groupby_size_def group_key_def getitem_def missing_key_frame_def
      group_rows_def sort_by_def unstack_def table_total_def wf_frame_def wf_column_def columns_def)

end
